theory Spec2Isabelle
  imports Complex_Main
begin

section \<open>Interpreter.ts: the expression evaluator\<close>

text \<open>
  The five classes that extend \<^verbatim>\<open>Expression\<close> become the five constructors of one
  datatype. The fields \<^verbatim>\<open>value\<close>, \<^verbatim>\<open>left\<close> and \<^verbatim>\<open>right\<close> are private and assigned in
  the constructors only, so a node can refer to nodes built before it and to no other:
  the objects form a finite tree.

  A TypeScript \<^verbatim>\<open>number\<close> is taken as a real number: rounding, infinities and NaN of
  the double format are left out of the model, and its two zeros, which \<^verbatim>\<open>===\<close> does not
  tell apart, are one number. The control flow and the test of the denominator do not
  depend on this. Where a statement below gives the value of a result, it is made on
  trees whose leaves and intermediate results are safe integers: there every operation
  of the double format is exact and returns the number that the model computes.
\<close>

type_synonym number = real

datatype Expression =
    NumberExpression number
  | AddExpression Expression Expression
  | SubtractExpression Expression Expression
  | MultiplyExpression Expression Expression
  | DivideExpression Expression Expression

text \<open>The only \<^verbatim>\<open>throw\<close> of the file: \<^verbatim>\<open>new Error("Division by zero is not allowed.")\<close>.\<close>

datatype error = DivisionByZero

text \<open>
  \<^verbatim>\<open>interpret()\<close>, one equation per class. An exception thrown by a callee leaves the
  caller at once, so an \<open>Inl\<close> of a subtree is returned as it is. The operands of
  \<^verbatim>\<open>+\<close>, \<^verbatim>\<open>-\<close> and \<^verbatim>\<open>*\<close> are evaluated from left to right; \<^verbatim>\<open>DivideExpression\<close>
  computes \<^verbatim>\<open>this.right.interpret()\<close> into \<^verbatim>\<open>denominator\<close> first, tests it, and
  calls \<^verbatim>\<open>this.left.interpret()\<close> afterwards.
\<close>

fun interpret_expr :: "Expression \<Rightarrow> error + number" where
  "interpret_expr (NumberExpression v) = Inr v"
| "interpret_expr (AddExpression left right) =
     (case interpret_expr left of
        Inl e \<Rightarrow> Inl e
      | Inr a \<Rightarrow> (case interpret_expr right of Inl e \<Rightarrow> Inl e | Inr b \<Rightarrow> Inr (a + b)))"
| "interpret_expr (SubtractExpression left right) =
     (case interpret_expr left of
        Inl e \<Rightarrow> Inl e
      | Inr a \<Rightarrow> (case interpret_expr right of Inl e \<Rightarrow> Inl e | Inr b \<Rightarrow> Inr (a - b)))"
| "interpret_expr (MultiplyExpression left right) =
     (case interpret_expr left of
        Inl e \<Rightarrow> Inl e
      | Inr a \<Rightarrow> (case interpret_expr right of Inl e \<Rightarrow> Inl e | Inr b \<Rightarrow> Inr (a * b)))"
| "interpret_expr (DivideExpression left right) =
     (case interpret_expr right of
        Inl e \<Rightarrow> Inl e
      | Inr denominator \<Rightarrow>
          if denominator = 0 then Inl DivisionByZero
          else (case interpret_expr left of Inl e \<Rightarrow> Inl e | Inr a \<Rightarrow> Inr (a / denominator)))"

text \<open>
  The calls of \<^verbatim>\<open>interpret()\<close> that one evaluation makes, in the order in which they
  are entered: the node itself, then the calls of the child evaluated first, then (when
  that child returned and the node goes on) the calls of the other child.
\<close>

fun calls :: "Expression \<Rightarrow> Expression list" where
  "calls (NumberExpression v) = [NumberExpression v]"
| "calls (AddExpression left right) =
     AddExpression left right # calls left @
       (case interpret_expr left of Inl e \<Rightarrow> [] | Inr a \<Rightarrow> calls right)"
| "calls (SubtractExpression left right) =
     SubtractExpression left right # calls left @
       (case interpret_expr left of Inl e \<Rightarrow> [] | Inr a \<Rightarrow> calls right)"
| "calls (MultiplyExpression left right) =
     MultiplyExpression left right # calls left @
       (case interpret_expr left of Inl e \<Rightarrow> [] | Inr a \<Rightarrow> calls right)"
| "calls (DivideExpression left right) =
     DivideExpression left right # calls right @
       (case interpret_expr right of
          Inl e \<Rightarrow> []
        | Inr denominator \<Rightarrow> if denominator = 0 then [] else calls left)"

text \<open>
  The receiver as one call of \<^verbatim>\<open>interpret()\<close> leaves it. No method body assigns a
  field of \<^verbatim>\<open>this\<close>, so the node keeps its class and its two references; each child
  that was evaluated is the object its own call left behind, a child that was not
  reached is untouched.
\<close>

fun after :: "Expression \<Rightarrow> Expression" where
  "after (NumberExpression v) = NumberExpression v"
| "after (AddExpression left right) =
     (case interpret_expr left of
        Inl e \<Rightarrow> AddExpression (after left) right
      | Inr a \<Rightarrow> AddExpression (after left) (after right))"
| "after (SubtractExpression left right) =
     (case interpret_expr left of
        Inl e \<Rightarrow> SubtractExpression (after left) right
      | Inr a \<Rightarrow> SubtractExpression (after left) (after right))"
| "after (MultiplyExpression left right) =
     (case interpret_expr left of
        Inl e \<Rightarrow> MultiplyExpression (after left) right
      | Inr a \<Rightarrow> MultiplyExpression (after left) (after right))"
| "after (DivideExpression left right) =
     (case interpret_expr right of
        Inl e \<Rightarrow> DivideExpression left (after right)
      | Inr denominator \<Rightarrow>
          if denominator = 0 then DivideExpression left (after right)
          else DivideExpression (after left) (after right))"

text \<open>The two trees that \<^verbatim>\<open>main()\<close> builds and evaluates.\<close>

definition expression :: Expression where
  "expression =
     MultiplyExpression
       (AddExpression (NumberExpression 5) (NumberExpression 3))
       (SubtractExpression (NumberExpression 10) (NumberExpression 2))"

definition expression2 :: Expression where
  "expression2 =
     AddExpression
       (DivideExpression (NumberExpression 20) (NumberExpression 5))
       (MultiplyExpression (NumberExpression 4) (NumberExpression 3))"

subsection \<open>Notions of the specification, for the statements below\<close>


text \<open>The subtree evaluates to zero; the subtree evaluates to a number that is not zero.\<close>

definition evaluates_to_zero :: "Expression \<Rightarrow> bool" where
  "evaluates_to_zero r = (interpret_expr r = Inr 0)"

definition evaluates_to_nonzero :: "Expression \<Rightarrow> bool" where
  "evaluates_to_nonzero r = (case interpret_expr r of Inl e \<Rightarrow> False | Inr d \<Rightarrow> d \<noteq> 0)"

text \<open>The evaluation fails.\<close>

definition fails :: "Expression \<Rightarrow> bool" where
  "fails x = (interpret_expr x = Inl DivisionByZero)"




text \<open>
  The reference evaluator of the specification: at every node, \<^verbatim>\<open>Divide\<close> included, the
  left child is evaluated first, then the right one, and only then is the divisor tested.
\<close>

fun evaluate_left_first :: "Expression \<Rightarrow> error + number" where
  "evaluate_left_first (NumberExpression v) = Inr v"
| "evaluate_left_first (AddExpression l r) =
     (case evaluate_left_first l of
        Inl e \<Rightarrow> Inl e
      | Inr a \<Rightarrow> (case evaluate_left_first r of Inl e \<Rightarrow> Inl e | Inr b \<Rightarrow> Inr (a + b)))"
| "evaluate_left_first (SubtractExpression l r) =
     (case evaluate_left_first l of
        Inl e \<Rightarrow> Inl e
      | Inr a \<Rightarrow> (case evaluate_left_first r of Inl e \<Rightarrow> Inl e | Inr b \<Rightarrow> Inr (a - b)))"
| "evaluate_left_first (MultiplyExpression l r) =
     (case evaluate_left_first l of
        Inl e \<Rightarrow> Inl e
      | Inr a \<Rightarrow> (case evaluate_left_first r of Inl e \<Rightarrow> Inl e | Inr b \<Rightarrow> Inr (a * b)))"
| "evaluate_left_first (DivideExpression l r) =
     (case evaluate_left_first l of
        Inl e \<Rightarrow> Inl e
      | Inr a \<Rightarrow>
          (case evaluate_left_first r of
             Inl e \<Rightarrow> Inl e
           | Inr b \<Rightarrow> if b = 0 then Inl DivisionByZero else Inr (a / b)))"

text \<open>The calls of the reference evaluator, in the order in which it enters them.\<close>

fun left_first_calls :: "Expression \<Rightarrow> Expression list" where
  "left_first_calls (NumberExpression v) = [NumberExpression v]"
| "left_first_calls (AddExpression l r) =
     AddExpression l r # left_first_calls l @
       (case evaluate_left_first l of Inl e \<Rightarrow> [] | Inr a \<Rightarrow> left_first_calls r)"
| "left_first_calls (SubtractExpression l r) =
     SubtractExpression l r # left_first_calls l @
       (case evaluate_left_first l of Inl e \<Rightarrow> [] | Inr a \<Rightarrow> left_first_calls r)"
| "left_first_calls (MultiplyExpression l r) =
     MultiplyExpression l r # left_first_calls l @
       (case evaluate_left_first l of Inl e \<Rightarrow> [] | Inr a \<Rightarrow> left_first_calls r)"
| "left_first_calls (DivideExpression l r) =
     DivideExpression l r # left_first_calls l @
       (case evaluate_left_first l of Inl e \<Rightarrow> [] | Inr a \<Rightarrow> left_first_calls r)"

text \<open>The tree has no \<^verbatim>\<open>Divide\<close> node.\<close>

fun divide_free :: "Expression \<Rightarrow> bool" where
  "divide_free (NumberExpression v) = True"
| "divide_free (AddExpression l r) = (divide_free l \<and> divide_free r)"
| "divide_free (SubtractExpression l r) = (divide_free l \<and> divide_free r)"
| "divide_free (MultiplyExpression l r) = (divide_free l \<and> divide_free r)"
| "divide_free (DivideExpression l r) = False"

text \<open>The nodes of a tree, the root included, and their number.\<close>

fun subtrees :: "Expression \<Rightarrow> Expression set" where
  "subtrees (NumberExpression v) = {NumberExpression v}"
| "subtrees (AddExpression l r) = insert (AddExpression l r) (subtrees l \<union> subtrees r)"
| "subtrees (SubtractExpression l r) =
     insert (SubtractExpression l r) (subtrees l \<union> subtrees r)"
| "subtrees (MultiplyExpression l r) =
     insert (MultiplyExpression l r) (subtrees l \<union> subtrees r)"
| "subtrees (DivideExpression l r) = insert (DivideExpression l r) (subtrees l \<union> subtrees r)"

fun nodes :: "Expression \<Rightarrow> nat" where
  "nodes (NumberExpression v) = 1"
| "nodes (AddExpression l r) = 1 + nodes l + nodes r"
| "nodes (SubtractExpression l r) = 1 + nodes l + nodes r"
| "nodes (MultiplyExpression l r) = 1 + nodes l + nodes r"
| "nodes (DivideExpression l r) = 1 + nodes l + nodes r"

text \<open>
  The evaluation ends at a raising \<^verbatim>\<open>Divide\<close> node: the last calls entered are that node
  and the calls of its right subtree, which evaluates to zero, and no call follows them.
\<close>

definition stops_at_zero_denominator :: "Expression \<Rightarrow> bool" where
  "stops_at_zero_denominator e =
     (\<exists>pre l r. calls e = pre @ DivideExpression l r # calls r \<and> evaluates_to_zero r)"

section \<open>State.ts: the order lifecycle\<close>

text \<open>
  The three classes that implement \<^verbatim>\<open>OrderState\<close> carry no data but the reference
  back to their context, so the state object held by \<^verbatim>\<open>OrderContext\<close> is one of three
  tags. \<^verbatim>\<open>console.log\<close> appends a line to the output, which is kept in the context.
\<close>

datatype OrderState = OrderPlacedState | OrderShippedState | OrderDeliveredState

record OrderContext =
  state :: OrderState
  console :: "string list"

text \<open>The constructor: \<^verbatim>\<open>this.state = new OrderPlacedState(this)\<close>.\<close>

definition new_OrderContext :: OrderContext where
  "new_OrderContext = \<lparr>state = OrderPlacedState, console = []\<rparr>"

definition setState :: "OrderState \<Rightarrow> OrderContext \<Rightarrow> OrderContext" where
  "setState s c = c\<lparr>state := s\<rparr>"

definition console_log :: "string \<Rightarrow> OrderContext \<Rightarrow> OrderContext" where
  "console_log line c = c\<lparr>console := console c @ [line]\<rparr>"

text \<open>
  The three methods of the context delegate to the current state object; each branch
  below is the body of that method in the class of the tag.
\<close>

definition processOrder :: "OrderContext \<Rightarrow> OrderContext" where
  "processOrder c =
     (case state c of
        OrderPlacedState \<Rightarrow>
          setState OrderShippedState (console_log ''[OrderPlaced] Processing order...'' c)
      | OrderShippedState \<Rightarrow>
          console_log ''[OrderShipped] Order has already been processed.'' c
      | OrderDeliveredState \<Rightarrow>
          console_log ''[OrderDelivered] Order has already been delivered.'' c)"

definition shipOrder :: "OrderContext \<Rightarrow> OrderContext" where
  "shipOrder c =
     (case state c of
        OrderPlacedState \<Rightarrow>
          console_log ''[OrderPlaced] Order cannot be shipped before processing.'' c
      | OrderShippedState \<Rightarrow>
          setState OrderDeliveredState (console_log ''[OrderShipped] Shipping order...'' c)
      | OrderDeliveredState \<Rightarrow>
          console_log ''[OrderDelivered] Order has already been shipped.'' c)"

definition deliverOrder :: "OrderContext \<Rightarrow> OrderContext" where
  "deliverOrder c =
     (case state c of
        OrderPlacedState \<Rightarrow>
          console_log ''[OrderPlaced] Order cannot be delivered before shipping.'' c
      | OrderShippedState \<Rightarrow>
          console_log ''[OrderShipped] Order cannot be delivered before shipping.'' c
      | OrderDeliveredState \<Rightarrow>
          console_log ''[OrderDelivered] Order is now complete.''
            (console_log ''[OrderDelivered] Delivering order...'' c))"

text \<open>A caller's sequence of calls on one context.\<close>

datatype operation = ProcessOrder | ShipOrder | DeliverOrder

fun call :: "operation \<Rightarrow> OrderContext \<Rightarrow> OrderContext" where
  "call ProcessOrder c = processOrder c"
| "call ShipOrder c = shipOrder c"
| "call DeliverOrder c = deliverOrder c"

fun run :: "operation list \<Rightarrow> OrderContext \<Rightarrow> OrderContext" where
  "run [] c = c"
| "run (x # xs) c = run xs (call x c)"

subsection \<open>Notions of the specification, for the statements below\<close>

text \<open>The place of a state on the line \<open>Placed \<rightarrow> Shipped \<rightarrow> Delivered\<close>.\<close>

fun position :: "OrderState \<Rightarrow> nat" where
  "position OrderPlacedState = 0"
| "position OrderShippedState = 1"
| "position OrderDeliveredState = 2"

text \<open>
  The operation that the specification calls legal in a state: \<^verbatim>\<open>processOrder\<close> in
  \<open>Placed\<close>, \<^verbatim>\<open>shipOrder\<close> in \<open>Shipped\<close>, \<^verbatim>\<open>deliverOrder\<close> in \<open>Delivered\<close>.
\<close>

fun legal :: "OrderState \<Rightarrow> operation \<Rightarrow> bool" where
  "legal OrderPlacedState x = (x = ProcessOrder)"
| "legal OrderShippedState x = (x = ShipOrder)"
| "legal OrderDeliveredState x = (x = DeliverOrder)"

text \<open>The lines that one call writes.\<close>

definition reported :: "operation \<Rightarrow> OrderContext \<Rightarrow> string list" where
  "reported x c = drop (length (console c)) (console (call x c))"

text \<open>
  The three kinds of outcome. A transition changes the state. A rejection writes one of
  the six lines of \<^verbatim>\<open>State.ts\<close> that refuse an operation, those saying that the order
  cannot be shipped or delivered yet, or has already been processed, shipped or
  delivered. A completion writes the two lines of \<^verbatim>\<open>OrderDeliveredState.deliverOrder\<close>.
\<close>

definition transition :: "operation \<Rightarrow> OrderContext \<Rightarrow> bool" where
  "transition x c = (state (call x c) \<noteq> state c)"

definition rejection_lines :: "string list" where
  "rejection_lines =
     [''[OrderPlaced] Order cannot be shipped before processing.'',
      ''[OrderPlaced] Order cannot be delivered before shipping.'',
      ''[OrderShipped] Order has already been processed.'',
      ''[OrderShipped] Order cannot be delivered before shipping.'',
      ''[OrderDelivered] Order has already been delivered.'',
      ''[OrderDelivered] Order has already been shipped.'']"

definition rejection :: "operation \<Rightarrow> OrderContext \<Rightarrow> bool" where
  "rejection x c = (\<exists>line \<in> set rejection_lines. reported x c = [line])"

definition completion :: "operation \<Rightarrow> OrderContext \<Rightarrow> bool" where
  "completion x c =
     (reported x c = [''[OrderDelivered] Delivering order...'',
                      ''[OrderDelivered] Order is now complete.''])"

section \<open>Properties of the expression evaluator\<close>

subsection \<open>Auxiliary facts\<close>

lemma error_unique: "(a::error) = b"
  by (cases a; cases b) simp

lemma fails_or_value: "fails e \<or> (\<exists>v. interpret_expr e = Inr v)"
  unfolding fails_def by (cases "interpret_expr e") (simp_all add: error_unique)

lemma fails_subtree: "x \<in> subtrees e \<Longrightarrow> fails x \<Longrightarrow> fails e"
  by (induction e) (auto simp: fails_def error_unique split: sum.splits)

lemma fails_Divide_iff:
  "fails (DivideExpression l r) \<longleftrightarrow> evaluates_to_zero r \<or> fails r \<or> fails l"
  unfolding fails_def evaluates_to_zero_def
  by (auto split: sum.splits if_splits simp: error_unique)

lemma stopsI:
  "calls e = pre @ DivideExpression l r # calls r \<Longrightarrow> evaluates_to_zero r
     \<Longrightarrow> stops_at_zero_denominator e"
  unfolding stops_at_zero_denominator_def by blast

lemma stops_first_child:
  assumes "stops_at_zero_denominator a" and "calls e = n # calls a"
  shows "stops_at_zero_denominator e"
proof -
  from assms(1) obtain pre l r
    where a: "calls a = pre @ DivideExpression l r # calls r" and z: "evaluates_to_zero r"
    unfolding stops_at_zero_denominator_def by blast
  from a assms(2) have "calls e = (n # pre) @ DivideExpression l r # calls r"
    by simp
  then show ?thesis using z by (rule stopsI)
qed

lemma stops_second_child:
  assumes "stops_at_zero_denominator b" and "calls e = n # xs @ calls b"
  shows "stops_at_zero_denominator e"
proof -
  from assms(1) obtain pre l r
    where b: "calls b = pre @ DivideExpression l r # calls r" and z: "evaluates_to_zero r"
    unfolding stops_at_zero_denominator_def by blast
  from b assms(2) have "calls e = (n # xs @ pre) @ DivideExpression l r # calls r"
    by simp
  then show ?thesis using z by (rule stopsI)
qed

lemma fails_stops: "fails e \<Longrightarrow> stops_at_zero_denominator e"
proof (induction e)
  case (NumberExpression v)
  then show ?case by (simp add: fails_def)
next
  case (AddExpression l r)
  show ?case
  proof (cases "interpret_expr l")
    case (Inl x)
    then have "fails l" by (simp add: fails_def error_unique)
    with AddExpression.IH(1) Inl show ?thesis by (auto intro: stops_first_child)
  next
    case (Inr a)
    with AddExpression.prems have "fails r"
      by (auto simp: fails_def error_unique split: sum.splits)
    with AddExpression.IH(2) Inr show ?thesis by (auto intro: stops_second_child)
  qed
next
  case (SubtractExpression l r)
  show ?case
  proof (cases "interpret_expr l")
    case (Inl x)
    then have "fails l" by (simp add: fails_def error_unique)
    with SubtractExpression.IH(1) Inl show ?thesis by (auto intro: stops_first_child)
  next
    case (Inr a)
    with SubtractExpression.prems have "fails r"
      by (auto simp: fails_def error_unique split: sum.splits)
    with SubtractExpression.IH(2) Inr show ?thesis by (auto intro: stops_second_child)
  qed
next
  case (MultiplyExpression l r)
  show ?case
  proof (cases "interpret_expr l")
    case (Inl x)
    then have "fails l" by (simp add: fails_def error_unique)
    with MultiplyExpression.IH(1) Inl show ?thesis by (auto intro: stops_first_child)
  next
    case (Inr a)
    with MultiplyExpression.prems have "fails r"
      by (auto simp: fails_def error_unique split: sum.splits)
    with MultiplyExpression.IH(2) Inr show ?thesis by (auto intro: stops_second_child)
  qed
next
  case (DivideExpression l r)
  show ?case
  proof (cases "interpret_expr r")
    case (Inl x)
    then have "fails r" by (simp add: fails_def error_unique)
    with DivideExpression.IH(2) Inl show ?thesis by (auto intro: stops_first_child)
  next
    case (Inr d)
    show ?thesis
    proof (cases "d = 0")
      case True
      with Inr have "evaluates_to_zero r" by (simp add: evaluates_to_zero_def)
      moreover have "calls (DivideExpression l r) = [] @ DivideExpression l r # calls r"
        using Inr True by simp
      ultimately show ?thesis by (blast intro: stopsI)
    next
      case False
      with Inr DivideExpression.prems have "fails l"
        by (auto simp: fails_def error_unique split: sum.splits)
      with DivideExpression.IH(1) Inr False show ?thesis
        by (auto intro: stops_second_child)
    qed
  qed
qed

lemma interpret_expr_left_first: "interpret_expr e = evaluate_left_first e"
  by (induction e) (auto split: sum.splits simp: error_unique)

lemma calls_left_first: "divide_free e \<Longrightarrow> calls e = left_first_calls e"
  by (induction e) (auto simp: interpret_expr_left_first split: sum.splits)



lemma after_same: "after e = e"
  by (induction e) (auto split: sum.splits)

lemma calls_subtrees: "set (calls e) \<subseteq> subtrees e"
  by (induction e) (auto split: sum.splits)

lemma length_calls: "length (calls e) \<le> nodes e"
  by (induction e) (auto split: sum.splits)

lemma subtrees_nodes_le: "x \<in> subtrees e \<Longrightarrow> nodes x \<le> nodes e"
  by (induction e) auto

lemma calls_Cons: "calls e = e # tl (calls e)"
  by (cases e) simp_all

lemma called_smaller: "x \<in> set (tl (calls e)) \<Longrightarrow> nodes x < nodes e"
proof (cases e)
  case (NumberExpression v)
  assume "x \<in> set (tl (calls e))"
  with NumberExpression show ?thesis by simp
next
  case (AddExpression l r)
  assume "x \<in> set (tl (calls e))"
  with AddExpression have "x \<in> set (calls l) \<or> x \<in> set (calls r)"
    by (auto split: sum.splits)
  then have "nodes x \<le> nodes l \<or> nodes x \<le> nodes r"
    using calls_subtrees subtrees_nodes_le by blast
  with AddExpression show ?thesis by auto
next
  case (SubtractExpression l r)
  assume "x \<in> set (tl (calls e))"
  with SubtractExpression have "x \<in> set (calls l) \<or> x \<in> set (calls r)"
    by (auto split: sum.splits)
  then have "nodes x \<le> nodes l \<or> nodes x \<le> nodes r"
    using calls_subtrees subtrees_nodes_le by blast
  with SubtractExpression show ?thesis by auto
next
  case (MultiplyExpression l r)
  assume "x \<in> set (tl (calls e))"
  with MultiplyExpression have "x \<in> set (calls l) \<or> x \<in> set (calls r)"
    by (auto split: sum.splits)
  then have "nodes x \<le> nodes l \<or> nodes x \<le> nodes r"
    using calls_subtrees subtrees_nodes_le by blast
  with MultiplyExpression show ?thesis by auto
next
  case (DivideExpression l r)
  assume "x \<in> set (tl (calls e))"
  with DivideExpression have "x \<in> set (calls l) \<or> x \<in> set (calls r)"
    by (auto split: sum.splits if_splits)
  then have "nodes x \<le> nodes l \<or> nodes x \<le> nodes r"
    using calls_subtrees subtrees_nodes_le by blast
  with DivideExpression show ?thesis by auto
qed

subsection \<open>Failure of a division\<close>

text \<open>
  C1, as the specification states it: evaluating \<open>Divide(l, r)\<close> fails with
  \<open>DivisionByZero\<close> if and only if \<open>r\<close> evaluates to zero. The code does not do this:
  in \<open>Divide(Divide(1, 0), 1)\<close> the right subtree evaluates to \<open>1\<close>, and the evaluation
  fails all the same, with the error of the left subtree.
\<close>

theorem C1_counterexample:
  "\<not> (fails (DivideExpression
               (DivideExpression (NumberExpression 1) (NumberExpression 0))
               (NumberExpression 1))
       \<longleftrightarrow> evaluates_to_zero (NumberExpression 1))"
  by (simp add: fails_def evaluates_to_zero_def)

text \<open>
  C1, amended: evaluating \<open>Divide(l, r)\<close> fails with \<open>DivisionByZero\<close> if and only if
  \<open>r\<close> evaluates to zero or the evaluation of \<open>r\<close> or of \<open>l\<close> itself fails. The error
  propagates: a failing node anywhere in a tree makes the evaluation of the tree fail.
  It does so at once: a failed evaluation has entered no call after those of the
  right subtree of the raising \<open>Divide\<close> node, and it returns no number. In particular
  \<open>Divide(y, Number(0))\<close> fails for every subtree \<open>y\<close>.
\<close>

theorem C1_divide_fails:
  "(fails (DivideExpression l r) \<longleftrightarrow> evaluates_to_zero r \<or> fails r \<or> fails l)
   \<and> (x \<in> subtrees e \<and> fails x \<longrightarrow> fails e)
   \<and> (fails e \<longrightarrow> stops_at_zero_denominator e \<and> (\<forall>v. interpret_expr e \<noteq> Inr v))
   \<and> interpret_expr (DivideExpression y (NumberExpression 0)) = Inl DivisionByZero"
  using fails_Divide_iff [of l r] fails_subtree [of x e] fails_stops [of e]
  by (auto simp: fails_def)

theorem C1_divide_fails_witness:
  "fails (DivideExpression (NumberExpression 1) (NumberExpression 0))
   \<and> evaluates_to_zero (NumberExpression 0)
   \<and> DivideExpression (NumberExpression 1) (NumberExpression 0)
        \<in> subtrees (AddExpression (NumberExpression 2)
             (DivideExpression (NumberExpression 1) (NumberExpression 0)))
   \<and> fails (AddExpression (NumberExpression 2)
             (DivideExpression (NumberExpression 1) (NumberExpression 0)))
   \<and> stops_at_zero_denominator (AddExpression (NumberExpression 2)
             (DivideExpression (NumberExpression 1) (NumberExpression 0)))"
  using C1_divide_fails [of "NumberExpression 1" "NumberExpression 0"
      "DivideExpression (NumberExpression 1) (NumberExpression 0)"
      "AddExpression (NumberExpression 2)
         (DivideExpression (NumberExpression 1) (NumberExpression 0))"
      "NumberExpression 1"]
  by (simp add: fails_def evaluates_to_zero_def)

subsection \<open>Values\<close>




subsection \<open>Order of evaluation\<close>

text \<open>
  C5, as the specification states it: at a \<open>Divide\<close> node the left subtree is evaluated
  before the right one. In \<open>Divide(1, 2)\<close> the code calls the right leaf first, and the
  order of its calls is not the order of the left-first evaluator.
\<close>

theorem C5_counterexample:
  "calls (DivideExpression (NumberExpression 1) (NumberExpression 2))
     = [DivideExpression (NumberExpression 1) (NumberExpression 2),
        NumberExpression 2, NumberExpression 1]
   \<and> calls (DivideExpression (NumberExpression 1) (NumberExpression 2))
     \<noteq> left_first_calls (DivideExpression (NumberExpression 1) (NumberExpression 2))"
  by simp

text \<open>
  C5, amended: at each \<open>Add\<close>, \<open>Subtract\<close> and \<open>Multiply\<close> node the left subtree is
  evaluated in full before the right one, which is evaluated unless the left one failed;
  at a \<open>Divide\<close> node the right subtree is evaluated in full first, and the left one
  after it, when the right one gave a number other than zero. On a tree with no
  \<open>Divide\<close> node the calls are those of the left-first reference evaluator, in the same
  order. On every tree the result, a number or \<open>DivisionByZero\<close>, is the result of the
  left-first reference evaluator.
\<close>

theorem C5_evaluation_order:
  "interpret_expr e = evaluate_left_first e
   \<and> (divide_free e \<longrightarrow> calls e = left_first_calls e)
   \<and> calls (AddExpression l r) =
       AddExpression l r # calls l @ (if fails l then [] else calls r)
   \<and> calls (SubtractExpression l r) =
       SubtractExpression l r # calls l @ (if fails l then [] else calls r)
   \<and> calls (MultiplyExpression l r) =
       MultiplyExpression l r # calls l @ (if fails l then [] else calls r)
   \<and> calls (DivideExpression l r) =
       DivideExpression l r # calls r @ (if evaluates_to_nonzero r then calls l else [])"
  using interpret_expr_left_first [of e] calls_left_first [of e]
  by (auto simp: fails_def evaluates_to_nonzero_def error_unique split: sum.splits)

theorem C5_evaluation_order_witness:
  "divide_free expression
   \<and> calls expression = left_first_calls expression
   \<and> interpret_expr expression = evaluate_left_first expression
   \<and> evaluates_to_nonzero (NumberExpression 5)
   \<and> calls (DivideExpression (NumberExpression 20) (NumberExpression 5)) =
       [DivideExpression (NumberExpression 20) (NumberExpression 5),
        NumberExpression 5, NumberExpression 20]"
  using C5_evaluation_order [of expression "NumberExpression 20" "NumberExpression 5"]
  by (simp add: expression_def evaluates_to_nonzero_def)

subsection \<open>Purity and termination\<close>

text \<open>
  C9: an evaluation leaves every node of the tree as it was, and a second evaluation of
  the tree makes the same calls and gives the same result as the first, the same number
  or the same \<open>DivisionByZero\<close>.
\<close>

theorem C9_pure:
  "after e = e
   \<and> interpret_expr (after e) = interpret_expr e
   \<and> calls (after e) = calls e"
  by (simp add: after_same)

text \<open>
  C10: the evaluation of every tree returns, with \<open>DivisionByZero\<close> or with a number.
  The first call is on the tree itself, every later call is on a node of the tree that
  is strictly smaller than it, and there are at most as many calls as the tree has nodes,
  whether the evaluation fails or not.
\<close>

theorem C10_terminates:
  "(interpret_expr e = Inl DivisionByZero \<or> (\<exists>v. interpret_expr e = Inr v))
   \<and> calls e = e # tl (calls e)
   \<and> (\<forall>x \<in> set (tl (calls e)). x \<in> subtrees e \<and> nodes x < nodes e)
   \<and> length (calls e) \<le> nodes e"
proof -
  have "interpret_expr e = Inl DivisionByZero \<or> (\<exists>v. interpret_expr e = Inr v)"
    using fails_or_value [of e] by (simp add: fails_def)
  moreover have "calls e = e # tl (calls e)"
    by (rule calls_Cons)
  moreover have "\<forall>x \<in> set (tl (calls e)). x \<in> subtrees e \<and> nodes x < nodes e"
  proof
    fix x
    assume x: "x \<in> set (tl (calls e))"
    then have "x \<in> set (calls e)"
      by (metis calls_Cons list.set_intros(2))
    then have "x \<in> subtrees e"
      using calls_subtrees by blast
    with x show "x \<in> subtrees e \<and> nodes x < nodes e"
      by (simp add: called_smaller)
  qed
  moreover have "length (calls e) \<le> nodes e"
    by (rule length_calls)
  ultimately show ?thesis by blast
qed

theorem C10_terminates_witness:
  "calls expression2 = expression2 # tl (calls expression2)
   \<and> NumberExpression 5 \<in> set (tl (calls expression2))
   \<and> NumberExpression 5 \<in> subtrees expression2
   \<and> nodes (NumberExpression 5) < nodes expression2
   \<and> length (calls expression2) \<le> nodes expression2"
  using C10_terminates [of expression2]
  by (simp add: expression2_def)

section \<open>Properties of the order lifecycle\<close>

subsection \<open>Auxiliary facts\<close>

lemmas order_defs =
  processOrder_def shipOrder_def deliverOrder_def setState_def console_log_def

lemma call_state_cases:
  "state (call x c) = state c
   \<or> state c = OrderPlacedState \<and> state (call x c) = OrderShippedState
   \<or> state c = OrderShippedState \<and> state (call x c) = OrderDeliveredState"
  by (cases x; cases "state c") (simp_all add: order_defs)

lemma position_call: "position (state c) \<le> position (state (call x c))"
  using call_state_cases [of x c] by auto

lemma position_run: "position (state c) \<le> position (state (run xs c))"
proof (induction xs arbitrary: c)
  case Nil
  show ?case by simp
next
  case (Cons x xs)
  have "position (state c) \<le> position (state (call x c))"
    by (rule position_call)
  also have "\<dots> \<le> position (state (run xs (call x c)))"
    by (rule Cons.IH)
  finally show ?case by simp
qed

lemma position_top: "2 \<le> position s \<Longrightarrow> s = OrderDeliveredState"
  by (cases s) simp_all

lemma run_Delivered:
  "state c = OrderDeliveredState \<Longrightarrow> state (run xs c) = OrderDeliveredState"
  using position_run [of c xs] by (simp add: position_top)

lemma console_call: "console (call x c) = console c @ reported x c"
  by (cases x; cases "state c") (simp_all add: reported_def order_defs)

lemma illegal_unchanged: "\<not> legal (state c) x \<longrightarrow> state (call x c) = state c"
  by (cases x; cases "state c") (simp_all add: order_defs)

lemma transition_iff:
  "transition x c \<longleftrightarrow>
     state c = OrderPlacedState \<and> x = ProcessOrder
     \<or> state c = OrderShippedState \<and> x = ShipOrder"
  by (cases x; cases "state c") (simp_all add: transition_def order_defs)

lemma rejection_iff: "rejection x c \<longleftrightarrow> \<not> legal (state c) x"
  by (cases x; cases "state c")
     (simp_all add: rejection_def rejection_lines_def reported_def order_defs)

lemma completion_iff:
  "completion x c \<longleftrightarrow> state c = OrderDeliveredState \<and> x = DeliverOrder"
  by (cases x; cases "state c") (simp_all add: completion_def reported_def order_defs)

lemma some_outcome: "transition x c \<or> completion x c \<or> rejection x c"
  unfolding transition_iff completion_iff rejection_iff
  by (cases x; cases "state c") simp_all

lemma progress_Placed:
  "state c = OrderPlacedState \<and> x = ProcessOrder \<longrightarrow>
     state (call x c) = OrderShippedState
     \<and> reported x c = [''[OrderPlaced] Processing order...'']"
  by (simp add: reported_def order_defs)

lemma progress_Shipped:
  "state c = OrderShippedState \<and> x = ShipOrder \<longrightarrow>
     state (call x c) = OrderDeliveredState
     \<and> reported x c = [''[OrderShipped] Shipping order...'']"
  by (simp add: reported_def order_defs)

subsection \<open>Transitions\<close>

text \<open>
  C3: a call of \<^verbatim>\<open>processOrder\<close>, \<^verbatim>\<open>shipOrder\<close> or \<^verbatim>\<open>deliverOrder\<close>, on a context in any
  state, leaves the state as it is or moves it one step along
  \<open>Placed \<rightarrow> Shipped \<rightarrow> Delivered\<close>. No sequence of calls moves the state backward, and
  from \<open>Delivered\<close> no sequence of calls changes it.
\<close>

theorem C3_forward_only:
  "(state (call x c) = state c
    \<or> state c = OrderPlacedState \<and> state (call x c) = OrderShippedState
    \<or> state c = OrderShippedState \<and> state (call x c) = OrderDeliveredState)
   \<and> position (state c) \<le> position (state (run xs c))
   \<and> (state c = OrderDeliveredState \<longrightarrow> state (run xs c) = OrderDeliveredState)"
  using call_state_cases [of x c] position_run [of c xs] run_Delivered [of c xs]
  by blast

theorem C3_forward_only_witness:
  "state (run [ProcessOrder, ShipOrder] new_OrderContext) = OrderDeliveredState
   \<and> state (run [ProcessOrder, ShipOrder, DeliverOrder]
              (run [ProcessOrder, ShipOrder] new_OrderContext)) = OrderDeliveredState"
  using C3_forward_only [of ProcessOrder "run [ProcessOrder, ShipOrder] new_OrderContext"
      "[ProcessOrder, ShipOrder, DeliverOrder]"]
  by (simp add: order_defs new_OrderContext_def)

text \<open>
  C4, as the specification states it: every operation in every state ends in a
  transition or in a rejection message. \<^verbatim>\<open>deliverOrder\<close> on a context that has reached
  \<open>Delivered\<close> does neither: the state stays \<open>Delivered\<close> and the two lines written
  report the completion of the order.
\<close>

theorem C4_counterexample:
  "\<not> (transition DeliverOrder (run [ProcessOrder, ShipOrder] new_OrderContext)
      \<or> rejection DeliverOrder (run [ProcessOrder, ShipOrder] new_OrderContext))"
  by (simp add: transition_def rejection_def rejection_lines_def reported_def
      new_OrderContext_def order_defs)

text \<open>
  C4, amended: every operation in every state has one of three outcomes, and writes
  what it reports after the lines already written. \<^verbatim>\<open>processOrder\<close> in \<open>Placed\<close> and
  \<^verbatim>\<open>shipOrder\<close> in \<open>Shipped\<close> are the transitions: they move the state one step and write
  their progress line. \<^verbatim>\<open>deliverOrder\<close> in \<open>Delivered\<close> is the completion, and it alone.
  Every other pair, that is every operation that is not the legal one of the current
  state, is a rejection: it writes one rejection line and leaves the state unchanged.
  No method body throws, so a call is a function from contexts to contexts with no
  error result.
\<close>

theorem C4_outcomes:
  "console (call x c) = console c @ reported x c
   \<and> (transition x c \<longleftrightarrow>
        state c = OrderPlacedState \<and> x = ProcessOrder
        \<or> state c = OrderShippedState \<and> x = ShipOrder)
   \<and> (state c = OrderPlacedState \<and> x = ProcessOrder \<longrightarrow>
        state (call x c) = OrderShippedState
        \<and> reported x c = [''[OrderPlaced] Processing order...''])
   \<and> (state c = OrderShippedState \<and> x = ShipOrder \<longrightarrow>
        state (call x c) = OrderDeliveredState
        \<and> reported x c = [''[OrderShipped] Shipping order...''])
   \<and> (completion x c \<longleftrightarrow> state c = OrderDeliveredState \<and> x = DeliverOrder)
   \<and> (rejection x c \<longleftrightarrow> \<not> legal (state c) x)
   \<and> (\<not> legal (state c) x \<longrightarrow> state (call x c) = state c)
   \<and> (transition x c \<or> completion x c \<or> rejection x c)"
  by (intro conjI console_call transition_iff progress_Placed progress_Shipped
      completion_iff rejection_iff illegal_unchanged some_outcome)

theorem C4_outcomes_witness:
  "transition ProcessOrder new_OrderContext
   \<and> state (call ProcessOrder new_OrderContext) = OrderShippedState
   \<and> completion DeliverOrder (shipOrder (processOrder new_OrderContext))
   \<and> \<not> legal (state new_OrderContext) ShipOrder
   \<and> rejection ShipOrder new_OrderContext
   \<and> state (call ShipOrder new_OrderContext) = state new_OrderContext"
proof -
  have p: "state new_OrderContext = OrderPlacedState"
    by (simp add: new_OrderContext_def)
  have d: "state (shipOrder (processOrder new_OrderContext)) = OrderDeliveredState"
    by (simp add: new_OrderContext_def order_defs)
  have i: "\<not> legal (state new_OrderContext) ShipOrder"
    by (simp add: p)
  note a = C4_outcomes [of ProcessOrder new_OrderContext]
  note b = C4_outcomes [of DeliverOrder "shipOrder (processOrder new_OrderContext)"]
  note r = C4_outcomes [of ShipOrder new_OrderContext]
  from a p have "transition ProcessOrder new_OrderContext"
    and "state (call ProcessOrder new_OrderContext) = OrderShippedState"
    by blast+
  moreover from b d
  have "completion DeliverOrder (shipOrder (processOrder new_OrderContext))"
    by blast
  moreover from r i have "rejection ShipOrder new_OrderContext"
    and "state (call ShipOrder new_OrderContext) = state new_OrderContext"
    by blast+
  ultimately show ?thesis using i by blast
qed

text \<open>
  C6: \<^verbatim>\<open>processOrder\<close> moves \<open>Placed\<close> to \<open>Shipped\<close> and \<^verbatim>\<open>shipOrder\<close> moves \<open>Shipped\<close> to
  \<open>Delivered\<close>. \<^verbatim>\<open>deliverOrder\<close> changes the state in none of the three states: in
  \<open>Placed\<close> and in \<open>Shipped\<close> it writes that the order cannot be delivered, in
  \<open>Delivered\<close> it writes that the order is complete.
\<close>

theorem C6_transitions:
  "(state c = OrderPlacedState \<longrightarrow> state (processOrder c) = OrderShippedState)
   \<and> (state c = OrderShippedState \<longrightarrow> state (shipOrder c) = OrderDeliveredState)
   \<and> state (deliverOrder c) = state c
   \<and> (state c = OrderPlacedState \<longrightarrow> console (deliverOrder c) =
        console c @ [''[OrderPlaced] Order cannot be delivered before shipping.''])
   \<and> (state c = OrderShippedState \<longrightarrow> console (deliverOrder c) =
        console c @ [''[OrderShipped] Order cannot be delivered before shipping.''])
   \<and> (state c = OrderDeliveredState \<longrightarrow> console (deliverOrder c) =
        console c @ [''[OrderDelivered] Delivering order...'',
                     ''[OrderDelivered] Order is now complete.''])"
  by (cases "state c") (simp_all add: order_defs)

theorem C6_transitions_witness:
  "state new_OrderContext = OrderPlacedState
   \<and> state (processOrder new_OrderContext) = OrderShippedState
   \<and> state (shipOrder (processOrder new_OrderContext)) = OrderDeliveredState
   \<and> console (deliverOrder new_OrderContext) =
        [''[OrderPlaced] Order cannot be delivered before shipping.'']
   \<and> reported DeliverOrder (processOrder new_OrderContext) =
        [''[OrderShipped] Order cannot be delivered before shipping.'']
   \<and> reported DeliverOrder (shipOrder (processOrder new_OrderContext)) =
        [''[OrderDelivered] Delivering order...'',
         ''[OrderDelivered] Order is now complete.'']"
  using C6_transitions [of new_OrderContext]
    C6_transitions [of "processOrder new_OrderContext"]
    C6_transitions [of "shipOrder (processOrder new_OrderContext)"]
  by (simp add: new_OrderContext_def reported_def)

subsection \<open>The scenarios of the specification\<close>

text \<open>
  C7: on a new context, which is in \<open>Placed\<close>, the calls \<^verbatim>\<open>processOrder()\<close>,
  \<^verbatim>\<open>shipOrder()\<close>, \<^verbatim>\<open>deliverOrder()\<close> end in \<open>Delivered\<close>; the first two each write their
  progress line and move the state, the third writes the two lines of completion.
\<close>

theorem C7_lifecycle:
  "state new_OrderContext = OrderPlacedState
   \<and> state (deliverOrder (shipOrder (processOrder new_OrderContext))) = OrderDeliveredState
   \<and> state (processOrder new_OrderContext) = OrderShippedState
   \<and> reported ProcessOrder new_OrderContext = [''[OrderPlaced] Processing order...'']
   \<and> state (shipOrder (processOrder new_OrderContext)) = OrderDeliveredState
   \<and> reported ShipOrder (processOrder new_OrderContext) =
        [''[OrderShipped] Shipping order...'']
   \<and> reported DeliverOrder (shipOrder (processOrder new_OrderContext)) =
        [''[OrderDelivered] Delivering order...'',
         ''[OrderDelivered] Order is now complete.'']"
  by (simp add: new_OrderContext_def reported_def order_defs)

text \<open>
  C8: \<^verbatim>\<open>shipOrder()\<close> on a new context leaves the state at \<open>Placed\<close> and writes that the
  order cannot be shipped before processing; \<^verbatim>\<open>processOrder()\<close> on a context in
  \<open>Delivered\<close> leaves the state at \<open>Delivered\<close> and writes that the order has already
  been delivered.
\<close>

theorem C8_rejections:
  "state (shipOrder new_OrderContext) = OrderPlacedState
   \<and> console (shipOrder new_OrderContext) =
        [''[OrderPlaced] Order cannot be shipped before processing.'']
   \<and> (state c = OrderDeliveredState \<longrightarrow>
        state (processOrder c) = OrderDeliveredState
        \<and> console (processOrder c) =
            console c @ [''[OrderDelivered] Order has already been delivered.''])"
  by (simp add: new_OrderContext_def order_defs)

theorem C8_rejections_witness:
  "state (run [ProcessOrder, ShipOrder, DeliverOrder] new_OrderContext) = OrderDeliveredState
   \<and> state (processOrder (run [ProcessOrder, ShipOrder, DeliverOrder] new_OrderContext))
        = OrderDeliveredState
   \<and> reported ProcessOrder (run [ProcessOrder, ShipOrder, DeliverOrder] new_OrderContext)
        = [''[OrderDelivered] Order has already been delivered.'']"
  using C8_rejections [of "run [ProcessOrder, ShipOrder, DeliverOrder] new_OrderContext"]
  by (simp add: new_OrderContext_def reported_def order_defs)

end
